theory Spec2Isabelle
  imports Main "HOL-Library.Sublist"
begin

section \<open>Python strings\<close>

text \<open>
  A Python \<open>str\<close> is modelled as a \<open>string\<close>; a \<open>char\<close> stands for a code point
  below 256. \<open>is_space\<close> lists the code points of that range for which Python's
  \<open>str.isspace\<close> holds; these are the separators of \<open>str.split()\<close> and the
  characters removed by \<open>str.strip()\<close>.
\<close>

definition is_space :: "char \<Rightarrow> bool" where
  "is_space c =
     (c = CHR 0x09 \<or> c = CHR 0x0A \<or> c = CHR 0x0B \<or> c = CHR 0x0C \<or> c = CHR 0x0D \<or>
      c = CHR 0x1C \<or> c = CHR 0x1D \<or> c = CHR 0x1E \<or> c = CHR 0x1F \<or> c = CHR 0x20 \<or>
      c = CHR 0x85 \<or> c = CHR 0xA0)"

text \<open>
  \<open>s.split()\<close>: the maximal runs of non-whitespace characters, in order. The first
  argument of \<open>split_from\<close> is the current run, reversed.
\<close>

fun split_from :: "string \<Rightarrow> string \<Rightarrow> string list" where
  "split_from cur [] = (if cur = [] then [] else [rev cur])"
| "split_from cur (c # cs) =
     (if is_space c then (if cur = [] then split_from [] cs else rev cur # split_from [] cs)
      else split_from (c # cur) cs)"

definition str_split :: "string \<Rightarrow> string list" where
  "str_split s = split_from [] s"

text \<open>\<open>s.strip()\<close>: leading and trailing whitespace removed.\<close>

definition str_strip :: "string \<Rightarrow> string" where
  "str_strip s = rev (dropWhile is_space (rev (dropWhile is_space s)))"

text \<open>
  \<open>s.replace(old, new)\<close>: every non-overlapping occurrence of \<open>old\<close>, found from left
  to right, becomes \<open>new\<close>. The counter of \<open>replace_from\<close> is the number of characters
  of the occurrence just matched that are still to be skipped. For the empty \<open>old\<close>
  Python puts \<open>new\<close> before every character and at the end.
\<close>

fun replace_from :: "string \<Rightarrow> string \<Rightarrow> nat \<Rightarrow> string \<Rightarrow> string" where
  "replace_from old new k [] = []"
| "replace_from old new (Suc k) (c # cs) = replace_from old new k cs"
| "replace_from old new 0 (c # cs) =
     (if prefix old (c # cs) then new @ replace_from old new (length old - 1) cs
      else c # replace_from old new 0 cs)"

definition str_replace :: "string \<Rightarrow> string \<Rightarrow> string \<Rightarrow> string" where
  "str_replace s old new =
     (if old = [] then new @ concat (map (\<lambda>c. c # new) s) else replace_from old new 0 s)"

section \<open>Exceptions and effects\<close>

datatype exn = IndexError | AttributeError | ValidationError | ImportError string | Exception string

text \<open>
  The effects of the program on the outside world, in the order they happen. Console
  output is not modelled.
\<close>

datatype event =
    ConnectAttempt
  | SimilaritySearch string int "string list"
  | ReadInput
  | Mkdir string
  | MkdirParent string
  | Kickoff string
  | WriteFile string string

section \<open>couchbase\_rag.py\<close>

subsection \<open>SeinfeldSearchInput\<close>

record SeinfeldSearchInput =
  query :: string
  num_results :: int

text \<open>
  Validation of the input schema: \<open>query\<close> is required, \<open>num_results\<close> defaults to 5
  and carries the bounds \<open>ge=1\<close>, \<open>le=10\<close>; a value that violates a bound is
  rejected with a validation error.
\<close>

definition SeinfeldSearchInput_validate :: "string \<Rightarrow> int option \<Rightarrow> exn + SeinfeldSearchInput" where
  "SeinfeldSearchInput_validate q n =
     (let k = (case n of None \<Rightarrow> 5 | Some v \<Rightarrow> v) in
      if 1 \<le> k \<and> k \<le> 10 then Inr \<lparr>query = q, num_results = k\<rparr> else Inl ValidationError)"

subsection \<open>SeinfeldRAGTool\<close>

text \<open>
  A match is a dict, as the annotations of \<open>_vector_search\<close> and \<open>_format_results\<close>
  say, or an object without a method \<open>get\<close>, such as the documents (page content and
  metadata) that the vector store of the library returns. Of a dict the model keeps the
  three keys that \<open>_format_results\<close> reads: \<open>None\<close> is an absent key, the score is kept
  as Python's \<open>str\<close> renders it.
\<close>

record result_dict =
  result_metadata :: "(string \<times> string) list option"
  result_text :: "string option"
  result_score :: "string option"

datatype search_result = DictResult result_dict | DocumentResult string "(string \<times> string) list"

text \<open>The vector store's \<open>similarity_search(query, k, fields)\<close>, an external service.\<close>

type_synonym similarity_search = "string \<Rightarrow> int \<Rightarrow> string list \<Rightarrow> exn + search_result list"

datatype obj = ClusterObj | BucketObj | ScopeObj | CollectionObj | EmbeddingsObj | OpenAIObj

record SeinfeldRAGTool =
  cluster :: "obj option"
  bucket :: "obj option"
  scope :: "obj option"
  collection :: "obj option"
  openai_client :: "obj option"
  embeddings :: "obj option"
  vector_store :: "similarity_search option"

text \<open>The class attributes: every private attribute starts as \<open>None\<close>.\<close>

definition SeinfeldRAGTool_attrs :: SeinfeldRAGTool where
  "SeinfeldRAGTool_attrs =
     \<lparr>cluster = None, bucket = None, scope = None, collection = None,
      openai_client = None, embeddings = None, vector_store = None\<rparr>"

text \<open>
  The calls of the \<open>try\<close> block of \<open>_initialize_connections\<close> that can raise, in
  source order, and the outside world they run in: which of them raise, how the vector
  store answers once it is built, and what the import of \<open>run_crew\<close> in \<open>main\<close> raises
  (it is relative to the package of \<open>main\<close>, and fails where \<open>crew\<close> is not a module of
  that package).
\<close>

datatype init_step =
    ImportModules | MakeAuthenticator | MakeClusterOptions | ConnectCluster | WaitUntilReady
  | OpenBucket | OpenScope | OpenCollection | MakeEmbeddings | MakeVectorStore

record env =
  raises :: "init_step \<Rightarrow> exn option"
  store :: similarity_search
  crew_import :: "exn option"

definition initialize_connections :: "env \<Rightarrow> SeinfeldRAGTool \<Rightarrow> SeinfeldRAGTool \<times> event list" where
  "initialize_connections e self =
     (if raises e ImportModules \<noteq> None then (self, [])
      else if raises e MakeAuthenticator \<noteq> None then (self, [])
      else if raises e MakeClusterOptions \<noteq> None then (self, [])
      else if raises e ConnectCluster \<noteq> None then (self, [ConnectAttempt])
      else let self = self\<lparr>cluster := Some ClusterObj\<rparr> in
      if raises e WaitUntilReady \<noteq> None then (self, [ConnectAttempt])
      else if raises e OpenBucket \<noteq> None then (self, [ConnectAttempt])
      else let self = self\<lparr>bucket := Some BucketObj\<rparr> in
      if raises e OpenScope \<noteq> None then (self, [ConnectAttempt])
      else let self = self\<lparr>scope := Some ScopeObj\<rparr> in
      if raises e OpenCollection \<noteq> None then (self, [ConnectAttempt])
      else let self = self\<lparr>collection := Some CollectionObj\<rparr> in
      if raises e MakeEmbeddings \<noteq> None then (self, [ConnectAttempt])
      else let self = self\<lparr>embeddings := Some EmbeddingsObj\<rparr> in
      if raises e MakeVectorStore \<noteq> None then (self, [ConnectAttempt])
      else (self\<lparr>vector_store := Some (store e)\<rparr>, [ConnectAttempt]))"

text \<open>\<open>__init__\<close>: the attributes of the class, then \<open>_initialize_connections\<close>.\<close>

definition SeinfeldRAGTool_init :: "env \<Rightarrow> SeinfeldRAGTool \<times> event list" where
  "SeinfeldRAGTool_init e = initialize_connections e SeinfeldRAGTool_attrs"

text \<open>
  \<open>_vector_search\<close>: an exception of the search, and the attribute error of a store
  that is still \<open>None\<close>, are caught and give the empty list.
\<close>

definition vector_search :: "SeinfeldRAGTool \<Rightarrow> string \<Rightarrow> int \<Rightarrow> search_result list \<times> event list" where
  "vector_search self q k =
     (case vector_store self of
        None \<Rightarrow> ([], [])
      | Some search \<Rightarrow>
          (case search q k [''Character'', ''EpisodeNo'', ''Season''] of
             Inl err \<Rightarrow> ([], [SimilaritySearch q k [''Character'', ''EpisodeNo'', ''Season'']])
           | Inr results \<Rightarrow> (results, [SimilaritySearch q k [''Character'', ''EpisodeNo'', ''Season'']])))"

text \<open>Decimal rendering of a natural number, as an f-string renders an \<open>int\<close>.\<close>

fun str_nat :: "nat \<Rightarrow> string" where
  "str_nat n =
     (if n < 10 then [char_of (48 + n)] else str_nat (n div 10) @ [char_of (48 + n mod 10)])"

declare str_nat.simps [simp del]

text \<open>
  The body of the loop of \<open>_format_results\<close>, as the text it adds to the output. On a
  match that is not a dict the first \<open>result.get\<close> raises.
\<close>

fun format_result :: "nat \<Rightarrow> search_result \<Rightarrow> exn + string" where
  "format_result i (DocumentResult content md) = Inl AttributeError"
| "format_result i (DictResult result) = Inr (
     ''### Example '' @ str_nat i @ ''\<newline>'' @
     (case result_metadata result of
        None \<Rightarrow> []
      | Some md \<Rightarrow>
          (if md \<noteq> [] then
             (case map_of md ''title'' of
                None \<Rightarrow> [] | Some v \<Rightarrow> ''**Episode:** '' @ v @ ''\<newline>'') @
             (case map_of md ''description'' of
                None \<Rightarrow> [] | Some v \<Rightarrow> ''**Context:** '' @ v @ ''\<newline>'')
           else [])) @
     (case result_text result of
        None \<Rightarrow> []
      | Some t \<Rightarrow>
          (if t \<noteq> [] then
             ''**Dialogue:**\<newline>```\<newline>'' @ take 1000 t @
             (if length t > 1000 then ''...'' else []) @ ''\<newline>```\<newline>''
           else [])) @
     ''**Relevance Score:** '' @ (case result_score result of None \<Rightarrow> ''N/A'' | Some s \<Rightarrow> s) @
     ''\<newline>\<newline>'' @
     ''---\<newline>\<newline>'')"

fun format_loop :: "nat \<Rightarrow> search_result list \<Rightarrow> exn + string" where
  "format_loop i [] = Inr []"
| "format_loop i (r # rs) =
     (case format_result i r of
        Inl err \<Rightarrow> Inl err
      | Inr s \<Rightarrow> (case format_loop (Suc i) rs of Inl err \<Rightarrow> Inl err | Inr t \<Rightarrow> Inr (s @ t)))"

definition format_results :: "search_result list \<Rightarrow> string \<Rightarrow> exn + string" where
  "format_results results q =
     (case format_loop 1 results of
        Inl err \<Rightarrow> Inl err
      | Inr body \<Rightarrow> Inr (
          ''## Seinfeld Script Search Results\<newline>'' @
          ''**Query:** '' @ q @ ''\<newline>'' @
          ''**Found '' @ str_nat (length results) @ '' relevant examples:**\<newline>\<newline>'' @
          body))"

text \<open>The entry \<open>"default"\<close> of \<open>demo_dialogues\<close>.\<close>

definition demo_dialogues_default :: string where
  "demo_dialogues_default =
     ''\<newline>'' @
     ''## Seinfeld Script Search Results (Demo Mode)\<newline>'' @
     ''**Note:** Running in demo mode - Couchbase connection not available.\<newline>'' @
     ''\<newline>'' @
     ''### Example 1 - Jerry's Apartment\<newline>'' @
     ''**Context:** Classic observational comedy setup\<newline>'' @
     ''\<newline>'' @
     ''```\<newline>'' @
     ''JERRY: See, that's the thing about [topic]. Everyone acts like it's normal, \<newline>'' @
     ''but have you ever really thought about it? I mean, really thought about it?\<newline>'' @
     ''\<newline>'' @
     ''GEORGE: What's there to think about? It's [topic]!\<newline>'' @
     ''\<newline>'' @
     ''JERRY: Exactly! That's my point. We just accept it.\<newline>'' @
     ''\<newline>'' @
     ''GEORGE: (getting agitated) Well what am I supposed to do, Jerry? Question \<newline>'' @
     ''everything? I've got enough problems!\<newline>'' @
     ''```\<newline>'' @
     ''\<newline>'' @
     ''### Example 2 - Monk's Coffee Shop\<newline>'' @
     ''**Context:** George's paranoid interpretation\<newline>'' @
     ''\<newline>'' @
     ''```\<newline>'' @
     ''GEORGE: You know what I think? I think this whole [topic] thing is a conspiracy.\<newline>'' @
     ''\<newline>'' @
     ''ELAINE: George, not everything is a conspiracy.\<newline>'' @
     ''\<newline>'' @
     ''GEORGE: That's exactly what they want you to think!\<newline>'' @
     ''\<newline>'' @
     ''KRAMER: (sliding into booth) I'm telling you, I've been saying this for years. \<newline>'' @
     ''[Topic]! It's all connected!\<newline>'' @
     ''\<newline>'' @
     ''JERRY: Here we go.\<newline>'' @
     ''```\<newline>'' @
     ''\<newline>'' @
     ''### Example 3 - Jerry's Apartment\<newline>'' @
     ''**Context:** Kramer's enthusiastic scheme\<newline>'' @
     ''\<newline>'' @
     ''```\<newline>'' @
     ''KRAMER: Jerry! Jerry! You're not gonna believe this!\<newline>'' @
     ''\<newline>'' @
     ''JERRY: What now?\<newline>'' @
     ''\<newline>'' @
     ''KRAMER: I've figured out the whole [topic] situation. It's genius!\<newline>'' @
     ''\<newline>'' @
     ''JERRY: Kramer, the last time you had a genius idea, you ended up in the \<newline>'' @
     ''Hudson River.\<newline>'' @
     ''\<newline>'' @
     ''KRAMER: That was different. That was a miscalculation. This? This is foolproof!\<newline>'' @
     ''\<newline>'' @
     ''JERRY: (to camera) Nothing's foolproof when it comes to Kramer.\<newline>'' @
     ''```\<newline>'' @
     ''\<newline>'' @
     ''---\<newline>'' @
     ''Use these examples as templates for the style, rhythm, and character voices.\<newline>''"

text \<open>
  \<open>_get_demo_response\<close>: the placeholder is replaced by \<open>query.split()[0]\<close> when the
  query is not empty, by \<open>this\<close> otherwise. Indexing the empty list raises.
\<close>

definition get_demo_response :: "string \<Rightarrow> exn + string" where
  "get_demo_response q =
     (if q \<noteq> [] then
        (case str_split q of
           [] \<Rightarrow> Inl IndexError
         | w # ws \<Rightarrow> Inr (str_replace demo_dialogues_default ''[topic]'' w))
      else Inr (str_replace demo_dialogues_default ''[topic]'' ''this''))"

text \<open>\<open>_run\<close>. An exception of \<open>_get_demo_response\<close> or \<open>_format_results\<close> is not caught.\<close>

definition run :: "SeinfeldRAGTool \<Rightarrow> string \<Rightarrow> int \<Rightarrow> (exn + string) \<times> event list" where
  "run self q k =
     (if cluster self = None \<or> openai_client self = None then (get_demo_response q, [])
      else
        (let (results, evs) = vector_search self q k in
         if results = [] then (get_demo_response q, evs)
         else (format_results results q, evs)))"

section \<open>crew.py\<close>

text \<open>
  \<open>crew().kickoff(inputs={"theme": theme})\<close> runs the five tasks in sequence on an
  external language model. It is a parameter here: from the crew's tool and the theme
  it gives the raw output of the last task, or raises.
\<close>

type_synonym kickoff = "SeinfeldRAGTool \<Rightarrow> string \<Rightarrow> exn + string"

text \<open>
  \<open>run_crew\<close>: creates the output directory, builds the crew (whose constructor
  builds the search tool) and kicks it off with the theme as given.
\<close>

definition run_crew :: "env \<Rightarrow> kickoff \<Rightarrow> string \<Rightarrow> (exn + string) \<times> event list" where
  "run_crew e kick theme =
     (let (tool, evs) = SeinfeldRAGTool_init e in
      (kick tool theme, [Mkdir ''output''] @ evs @ [Kickoff theme]))"

section \<open>main.py\<close>

record args =
  arg_theme :: "string option"
  arg_interactive :: bool
  arg_output :: string
  arg_verbose :: bool
  arg_demo :: bool

datatype exit = Returned | SystemExit int

text \<open>
  The second half of \<open>main\<close>, from the creation of the output directory on: the import
  of \<open>run_crew\<close> and the crew run inside \<open>try\<close>, and every exception, of the import or
  of the crew, leaves through \<open>sys.exit(1)\<close>.
\<close>

definition main_generate :: "env \<Rightarrow> kickoff \<Rightarrow> args \<Rightarrow> string \<Rightarrow> exit \<times> event list" where
  "main_generate e kick a theme =
     (case crew_import e of
        Some err \<Rightarrow> (SystemExit 1, [MkdirParent (arg_output a)])
      | None \<Rightarrow>
          (let (r, evs) = run_crew e kick theme in
           case r of
             Inl err \<Rightarrow> (SystemExit 1, [MkdirParent (arg_output a)] @ evs)
           | Inr result \<Rightarrow>
               (Returned,
                [MkdirParent (arg_output a)] @ evs @
                [WriteFile (arg_output a)
                   (''# Seinfeld Episode: '' @ theme @ ''\<newline>\<newline>'' @ result)])))"

text \<open>
  \<open>main\<close>, after argument parsing; \<open>line\<close> is what \<open>input\<close> returns if it is called.
  A theme that is \<open>None\<close> or empty is falsy.
\<close>

definition main :: "env \<Rightarrow> kickoff \<Rightarrow> args \<Rightarrow> string \<Rightarrow> exit \<times> event list" where
  "main e kick a line =
     (if arg_interactive a \<or> arg_theme a = None \<or> arg_theme a = Some [] then
        (let theme = str_strip line in
         if theme = [] then (SystemExit 1, [ReadInput])
         else (let (x, evs) = main_generate e kick a theme in (x, [ReadInput] @ evs)))
      else main_generate e kick a (case arg_theme a of Some t \<Rightarrow> t | None \<Rightarrow> []))"

section \<open>Reading a response\<close>

text \<open>
  Both responses of the tool head every passage with a line that starts with
  \<open>### Example\<close> and a blank; \<open>example_count\<close> counts these lines. The flag of
  \<open>count_from\<close> says whether the position is the start of a line.
\<close>

fun count_from :: "bool \<Rightarrow> string \<Rightarrow> nat" where
  "count_from b [] = 0"
| "count_from b (c # cs) =
     (if b \<and> prefix ''### Example '' (c # cs) then 1 else 0) + count_from (c = CHR 0x0A) cs"

definition example_count :: "string \<Rightarrow> nat" where
  "example_count s = count_from True s"

definition unlines :: "string list \<Rightarrow> string" where
  "unlines ls = concat (map (\<lambda>l. l @ ''\<newline>'') ls)"

text \<open>
  The lines of the demo response for a topic \<open>w\<close>, after the leading newline: the
  template with \<open>w\<close> in the place of each \<open>[topic]\<close>. The capitalised \<open>[Topic]\<close> of
  Kramer's line is not an occurrence of \<open>[topic]\<close> and stays.
\<close>

definition demo_lines :: "string \<Rightarrow> string list" where
  "demo_lines w =
     [''## Seinfeld Script Search Results (Demo Mode)'',
      ''**Note:** Running in demo mode - Couchbase connection not available.'',
      '''',
      ''### Example 1 - Jerry's Apartment'',
      ''**Context:** Classic observational comedy setup'',
      '''',
      ''```'',
      ''JERRY: See, that's the thing about '' @ w @ ''. Everyone acts like it's normal, '',
      ''but have you ever really thought about it? I mean, really thought about it?'',
      '''',
      ''GEORGE: What's there to think about? It's '' @ w @ ''!'',
      '''',
      ''JERRY: Exactly! That's my point. We just accept it.'',
      '''',
      ''GEORGE: (getting agitated) Well what am I supposed to do, Jerry? Question '',
      ''everything? I've got enough problems!'',
      ''```'',
      '''',
      ''### Example 2 - Monk's Coffee Shop'',
      ''**Context:** George's paranoid interpretation'',
      '''',
      ''```'',
      ''GEORGE: You know what I think? I think this whole '' @ w @ '' thing is a conspiracy.'',
      '''',
      ''ELAINE: George, not everything is a conspiracy.'',
      '''',
      ''GEORGE: That's exactly what they want you to think!'',
      '''',
      ''KRAMER: (sliding into booth) I'm telling you, I've been saying this for years. '',
      ''[Topic]! It's all connected!'',
      '''',
      ''JERRY: Here we go.'',
      ''```'',
      '''',
      ''### Example 3 - Jerry's Apartment'',
      ''**Context:** Kramer's enthusiastic scheme'',
      '''',
      ''```'',
      ''KRAMER: Jerry! Jerry! You're not gonna believe this!'',
      '''',
      ''JERRY: What now?'',
      '''',
      ''KRAMER: I've figured out the whole '' @ w @ '' situation. It's genius!'',
      '''',
      ''JERRY: Kramer, the last time you had a genius idea, you ended up in the '',
      ''Hudson River.'',
      '''',
      ''KRAMER: That was different. That was a miscalculation. This? This is foolproof!'',
      '''',
      ''JERRY: (to camera) Nothing's foolproof when it comes to Kramer.'',
      ''```'',
      '''',
      ''---'',
      ''Use these examples as templates for the style, rhythm, and character voices.'']"

section \<open>Concrete inputs\<close>

definition offline_env :: env where
  "offline_env =
     \<lparr>raises = (\<lambda>s. if s = WaitUntilReady then Some (Exception ''unreachable'') else None),
      store = (\<lambda>q k fs. Inl (Exception ''unreachable'')),
      crew_import = None\<rparr>"

definition sample_results :: "search_result list" where
  "sample_results =
     [DocumentResult ''I hate my job.''
        [(''Character'', ''GEORGE''), (''EpisodeNo'', ''7''), (''Season'', ''2'')],
      DocumentResult ''I quit!''
        [(''Character'', ''GEORGE''), (''EpisodeNo'', ''7''), (''Season'', ''2'')]]"

definition sample_store :: similarity_search where
  "sample_store q k fs = Inr (take (nat k) sample_results)"


definition online_env :: env where
  "online_env = \<lparr>raises = (\<lambda>s. None), store = sample_store, crew_import = None\<rparr>"


definition echo_kickoff :: kickoff where
  "echo_kickoff tool theme = Inr (''SCRIPT: '' @ theme)"

definition no_args :: args where
  "no_args =
     \<lparr>arg_theme = None, arg_interactive = False, arg_output = ''output/seinfeld_script.md'',
      arg_verbose = False, arg_demo = False\<rparr>"

section \<open>Properties of the string operations\<close>

subsection \<open>Tokens of a query\<close>

lemma split_from_tokens:
  "w \<in> set (split_from cur s) \<Longrightarrow> list_all (\<lambda>c. \<not> is_space c) cur \<Longrightarrow>
   list_all (\<lambda>c. \<not> is_space c) w"
  by (induction s arbitrary: cur) (auto split: if_splits)

lemma str_split_tokens: "w \<in> set (str_split s) \<Longrightarrow> list_all (\<lambda>c. \<not> is_space c) w"
  unfolding str_split_def by (erule split_from_tokens) simp

lemma newline_is_space: "is_space CHR 0x0A"
  by (simp add: is_space_def)

lemma token_no_newline: "w \<in> set (str_split s) \<Longrightarrow> CHR 0x0A \<notin> set w"
  using str_split_tokens [of w s] newline_is_space by (auto simp: list_all_iff)

lemma split_from_spaces: "list_all is_space s \<Longrightarrow> split_from [] s = []"
  by (induction s) auto

subsection \<open>Replacement line by line\<close>

lemma prefix_line:
  "n \<notin> set old \<Longrightarrow> prefix old (l @ n # rest) = prefix old l"
  by (auto simp: prefix_append prefix_Cons)

lemma replace_from_line:
  "n \<notin> set old \<Longrightarrow> old \<noteq> [] \<Longrightarrow> k \<le> length l \<Longrightarrow>
   replace_from old new k (l @ n # rest) = replace_from old new k l @ n # replace_from old new 0 rest"
proof (induction l arbitrary: k)
  case Nil
  then show ?case by (cases old) auto
next
  case (Cons c l)
  show ?case
  proof (cases k)
    case 0
    have p: "prefix old (c # l @ n # rest) = prefix old (c # l)"
      using prefix_line [OF Cons.prems(1), of "c # l" rest] by simp
    have len: "prefix old (c # l) \<Longrightarrow> length old - 1 \<le> length l"
      by (auto dest: prefix_length_le)
    show ?thesis
      using 0 p len Cons.IH [OF Cons.prems(1,2)] by auto
  next
    case (Suc j)
    then show ?thesis using Cons by simp
  qed
qed

lemma replace_from_unlines:
  "CHR 0x0A \<notin> set old \<Longrightarrow> old \<noteq> [] \<Longrightarrow>
   replace_from old new 0 (unlines ls) = unlines (map (replace_from old new 0) ls)"
  by (induction ls) (simp_all add: unlines_def replace_from_line)

lemma replace_from_newline:
  "CHR 0x0A \<notin> set old \<Longrightarrow> old \<noteq> [] \<Longrightarrow>
   replace_from old new 0 (CHR 0x0A # rest) = CHR 0x0A # replace_from old new 0 rest"
  using replace_from_line [of "CHR 0x0A" old 0 "[]" new rest] by simp

lemma demo_default_lines: "demo_dialogues_default = CHR 0x0A # unlines (demo_lines ''[topic]'')"
  by (simp add: demo_dialogues_default_def demo_lines_def unlines_def)

lemma demo_lines_replace: "map (replace_from ''[topic]'' w 0) (demo_lines ''[topic]'') = demo_lines w"
  by (simp add: demo_lines_def)

lemma demo_replace: "str_replace demo_dialogues_default ''[topic]'' w = CHR 0x0A # unlines (demo_lines w)"
proof -
  have n: "CHR 0x0A \<notin> set ''[topic]''" by simp
  have ne: "''[topic]'' \<noteq> []" by simp
  have "str_replace demo_dialogues_default ''[topic]'' w
      = replace_from ''[topic]'' w 0 (CHR 0x0A # unlines (demo_lines ''[topic]''))"
    by (simp add: str_replace_def demo_default_lines)
  also have "\<dots> = CHR 0x0A # unlines (map (replace_from ''[topic]'' w 0) (demo_lines ''[topic]''))"
    by (simp only: replace_from_newline [OF n ne] replace_from_unlines [OF n ne])
  finally show ?thesis by (simp only: demo_lines_replace)
qed

subsection \<open>Counting\<close>

lemma count_from_line:
  "CHR 0x0A \<notin> set l \<Longrightarrow>
   count_from b (l @ CHR 0x0A # rest) =
     (if b \<and> prefix ''### Example '' l then 1 else 0) + count_from True rest"
proof (induction l arbitrary: b)
  case Nil
  then show ?case by simp
next
  case (Cons c l)
  have "prefix ''### Example '' (c # l @ CHR 0x0A # rest) = prefix ''### Example '' (c # l)"
    using prefix_line [of "CHR 0x0A" "''### Example ''" "c # l" rest] by simp
  then show ?case using Cons by auto
qed

lemma count_from_unlines:
  "list_all (\<lambda>l. CHR 0x0A \<notin> set l) ls \<Longrightarrow>
   count_from True (unlines ls) = length (filter (prefix ''### Example '') ls)"
  by (induction ls) (simp_all add: unlines_def count_from_line)

lemma demo_lines_no_newline:
  "CHR 0x0A \<notin> set w \<Longrightarrow> list_all (\<lambda>l. CHR 0x0A \<notin> set l) (demo_lines w)"
  by (simp add: demo_lines_def)

lemma demo_lines_examples: "length (filter (prefix ''### Example '') (demo_lines w)) = 3"
  by (simp add: demo_lines_def)

lemma demo_example_count:
  "CHR 0x0A \<notin> set w \<Longrightarrow> example_count (CHR 0x0A # unlines (demo_lines w)) = 3"
  by (simp add: example_count_def count_from_unlines demo_lines_no_newline demo_lines_examples)

section \<open>Properties of the tool's operations\<close>

lemma init_openai_client: "openai_client (fst (SeinfeldRAGTool_init e)) = None"
  by (simp add: SeinfeldRAGTool_init_def initialize_connections_def SeinfeldRAGTool_attrs_def Let_def)

lemma run_after_init: "run (fst (SeinfeldRAGTool_init e)) q k = (get_demo_response q, [])"
  by (simp add: run_def init_openai_client)

lemma init_failed_store:
  "raises e s \<noteq> None \<Longrightarrow> vector_store (fst (SeinfeldRAGTool_init e)) = None"
  by (cases s)
    (auto simp: SeinfeldRAGTool_init_def initialize_connections_def SeinfeldRAGTool_attrs_def Let_def)

lemma demo_response_token:
  "str_split q = w # ws \<Longrightarrow> get_demo_response q = Inr (CHR 0x0A # unlines (demo_lines w))"
  by (cases q) (simp_all add: get_demo_response_def demo_replace str_split_def)

lemma demo_response_empty: "get_demo_response [] = Inr (CHR 0x0A # unlines (demo_lines ''this''))"
  by (simp add: get_demo_response_def demo_replace)

lemma demo_response_spaces:
  "q \<noteq> [] \<Longrightarrow> list_all is_space q \<Longrightarrow> get_demo_response q = Inl IndexError"
  by (simp add: get_demo_response_def str_split_def split_from_spaces)

lemma demo_response_examples: "get_demo_response q = Inr r \<Longrightarrow> example_count r = 3"
proof (cases "q = []")
  case True
  assume "get_demo_response q = Inr r"
  with True have "r = CHR 0x0A # unlines (demo_lines ''this'')"
    by (simp add: demo_response_empty)
  then show ?thesis by (simp add: demo_example_count)
next
  case False
  assume r: "get_demo_response q = Inr r"
  show ?thesis
  proof (cases "str_split q")
    case Nil
    with False r show ?thesis by (simp add: get_demo_response_def)
  next
    case (Cons w ws)
    then have "w \<in> set (str_split q)" by simp
    then have "CHR 0x0A \<notin> set w" by (rule token_no_newline)
    moreover from Cons r have "r = CHR 0x0A # unlines (demo_lines w)"
      by (simp add: demo_response_token)
    ultimately show ?thesis by (simp add: demo_example_count)
  qed
qed

lemma sublist_unlines: "l \<in> set ls \<Longrightarrow> sublist x l \<Longrightarrow> sublist x (unlines ls)"
proof -
  assume "l \<in> set ls" and x: "sublist x l"
  then obtain as bs where "ls = as @ l # bs" by (auto dest: split_list)
  then have "unlines ls = unlines as @ l @ (CHR 0x0A # unlines bs)"
    by (simp add: unlines_def)
  moreover from x obtain p s where "l = p @ x @ s" by (auto simp: sublist_def)
  ultimately have "unlines ls = (unlines as @ p) @ x @ (s @ CHR 0x0A # unlines bs)" by simp
  then show ?thesis unfolding sublist_def by blast
qed

lemma demo_keeps_Topic: "sublist ''[Topic]'' (CHR 0x0A # unlines (demo_lines w))"
proof -
  have "''[Topic]! It's all connected!'' \<in> set (demo_lines w)"
    by (simp add: demo_lines_def)
  moreover have "sublist ''[Topic]'' (''[Topic]'' @ ''! It's all connected!'')"
    by (rule sublist_append_rightI)
  ultimately have "sublist ''[Topic]'' (unlines (demo_lines w))"
    by (simp add: sublist_unlines)
  then show ?thesis by (simp add: sublist_Cons_right)
qed



lemma split_George: "str_split ''George'' = [''George'']"
  by (simp add: str_split_def is_space_def)

lemma split_George_job:
  "str_split ''George complaining about his job'' =
     [''George'', ''complaining'', ''about'', ''his'', ''job'']"
  by (simp add: str_split_def is_space_def)

section \<open>The search tool\<close>

text \<open>
  C2. For every tool and every query \<open>_run\<close> should return the demo-mode response,
  whether or not the connection was established, since \<open>_openai_client\<close> is never
  assigned. On the tool built in \<open>online_env\<close> the attribute is \<open>None\<close> indeed and the
  query \<open>George\<close> gets the demo response, but the query of one tab character gets no
  response: the call raises.
\<close>

theorem demo_branch_raises_on_tab:
  "openai_client (fst (SeinfeldRAGTool_init online_env)) = None \<and>
   run (fst (SeinfeldRAGTool_init online_env)) ''George'' 5 =
     (Inr (CHR 0x0A # unlines (demo_lines ''George'')), []) \<and>
   run (fst (SeinfeldRAGTool_init online_env)) [CHR 0x09] 5 = (Inl IndexError, [])"
proof -
  have "get_demo_response [CHR 0x09] = Inl IndexError"
    by (rule demo_response_spaces) (simp_all add: is_space_def)
  then show ?thesis
    by (simp add: init_openai_client run_after_init demo_response_token [OF split_George])
qed

text \<open>
  C1. With the connection established, a search should embed the query, run the
  similarity search restricted to character, episode number and season, and return up
  to \<open>result_count\<close> matches. The tool built in \<open>online_env\<close>, where every step of the
  setup succeeds and the store holds matches, answers with the demo response instead and
  issues no search, although \<open>_vector_search\<close> on the same tool finds the matches.
\<close>

theorem run_connected_skips_search:
  "run (fst (SeinfeldRAGTool_init online_env)) ''George complaining about his job'' 3 =
     (Inr (CHR 0x0A # unlines (demo_lines ''George'')), []) \<and>
   vector_search (fst (SeinfeldRAGTool_init online_env)) ''George complaining about his job'' 3 =
     (sample_results,
      [SimilaritySearch ''George complaining about his job'' 3
         [''Character'', ''EpisodeNo'', ''Season'']])"
proof -
  have "vector_store (fst (SeinfeldRAGTool_init online_env)) = Some sample_store"
    by (simp add: SeinfeldRAGTool_init_def initialize_connections_def online_env_def Let_def)
  then show ?thesis
    by (simp add: run_after_init demo_response_token [OF split_George_job]
        vector_search_def sample_store_def sample_results_def)
qed

text \<open>
  C3, as amended. A \<open>num_results\<close> outside the range from 1 to 10 is rejected by the
  input schema with a validation error; it is not clamped into the range.
\<close>

theorem validate_rejects_out_of_range:
  "k < 1 \<or> 10 < k \<Longrightarrow> SeinfeldSearchInput_validate q (Some k) = Inl ValidationError"
  by (auto simp: SeinfeldSearchInput_validate_def)

theorem validate_rejects_out_of_range_witness:
  "((15::int) < 1 \<or> 10 < (15::int)) \<and>
   SeinfeldSearchInput_validate ''George'' (Some 15) = Inl ValidationError"
  using validate_rejects_out_of_range [of 15 "''George''"] by simp

text \<open>
  C3 as stated fails: a request for 0 results is an error and differs from a request
  for 1, and a request for 15 is an error and differs from a request for 10.
\<close>

theorem validate_does_not_clamp:
  "SeinfeldSearchInput_validate ''George'' (Some 0) = Inl ValidationError \<and>
   SeinfeldSearchInput_validate ''George'' (Some 0) \<noteq>
     SeinfeldSearchInput_validate ''George'' (Some 1) \<and>
   SeinfeldSearchInput_validate ''George'' (Some 15) = Inl ValidationError \<and>
   SeinfeldSearchInput_validate ''George'' (Some 15) \<noteq>
     SeinfeldSearchInput_validate ''George'' (Some 10)"
  by (simp add: SeinfeldSearchInput_validate_def)

text \<open>
  C4, as amended. When the connection setup has failed, a search that returns a
  response returns one with exactly three example passages, whatever \<open>num_results\<close>
  was requested.
\<close>

theorem degraded_response_has_three_examples:
  assumes "raises e s \<noteq> None"
    and "fst (run (fst (SeinfeldRAGTool_init e)) q k) = Inr r"
  shows "example_count r = 3"
  using assms(2) by (simp add: run_after_init demo_response_examples)

theorem degraded_response_has_three_examples_witness:
  "raises offline_env WaitUntilReady \<noteq> None \<and>
   fst (run (fst (SeinfeldRAGTool_init offline_env)) ''George'' 1) =
     Inr (CHR 0x0A # unlines (demo_lines ''George'')) \<and>
   example_count (CHR 0x0A # unlines (demo_lines ''George'')) = 3"
proof -
  have a: "raises offline_env WaitUntilReady \<noteq> None" by (simp add: offline_env_def)
  have b: "fst (run (fst (SeinfeldRAGTool_init offline_env)) ''George'' 1) =
     Inr (CHR 0x0A # unlines (demo_lines ''George''))"
    by (simp add: run_after_init demo_response_token [OF split_George])
  from degraded_response_has_three_examples [OF a b] a b show ?thesis by simp
qed

text \<open>
  C4 as stated fails: in degraded mode a request for one result is answered with more
  than one example passage.
\<close>

theorem degraded_response_exceeds_count:
  "fst (run (fst (SeinfeldRAGTool_init offline_env)) ''George'' 1) =
     Inr (CHR 0x0A # unlines (demo_lines ''George'')) \<and>
   \<not> example_count (CHR 0x0A # unlines (demo_lines ''George'')) \<le> 1"
proof -
  have "CHR 0x0A \<notin> set ''George''" by simp
  then have "example_count (CHR 0x0A # unlines (demo_lines ''George'')) = 3"
    by (rule demo_example_count)
  then show ?thesis
    by (simp add: run_after_init demo_response_token [OF split_George])
qed

text \<open>
  C6. In degraded mode the response to a non-empty query should be the template with
  every topic placeholder replaced by the first token of the query. For the query of
  one blank the call raises instead, and for the query \<open>George\<close> the response still
  holds the placeholder \<open>[Topic]\<close> of Kramer's line.
\<close>

theorem demo_response_placeholder_defects:
  "fst (run (fst (SeinfeldRAGTool_init offline_env)) '' '' 5) = Inl IndexError \<and>
   fst (run (fst (SeinfeldRAGTool_init offline_env)) ''George'' 5) =
     Inr (CHR 0x0A # unlines (demo_lines ''George'')) \<and>
   sublist ''[Topic]'' (CHR 0x0A # unlines (demo_lines ''George''))"
proof -
  have "get_demo_response '' '' = Inl IndexError"
    by (rule demo_response_spaces) (simp_all add: is_space_def)
  then show ?thesis
    by (simp add: run_after_init demo_response_token [OF split_George] demo_keeps_Topic)
qed

text \<open>
  C7. If the connection setup fails, construction should not raise and every later
  search on the tool should return the degraded-mode response, with no new connection
  attempt. In \<open>offline_env\<close> the cluster does not become ready: the constructor returns
  a tool without vector store, and the query \<open>George\<close> gets the degraded-mode response
  with no effect on the outside world, but the query of two blanks gets no response:
  the call raises.
\<close>

theorem failed_setup_whitespace_call_raises:
  "raises offline_env WaitUntilReady = Some (Exception ''unreachable'') \<and>
   vector_store (fst (SeinfeldRAGTool_init offline_env)) = None \<and>
   run (fst (SeinfeldRAGTool_init offline_env)) ''George'' 5 =
     (Inr (CHR 0x0A # unlines (demo_lines ''George'')), []) \<and>
   run (fst (SeinfeldRAGTool_init offline_env)) ''  '' 5 = (Inl IndexError, [])"
proof -
  have a: "raises offline_env WaitUntilReady = Some (Exception ''unreachable'')"
    by (simp add: offline_env_def)
  then have "raises offline_env WaitUntilReady \<noteq> None" by simp
  then have b: "vector_store (fst (SeinfeldRAGTool_init offline_env)) = None"
    by (rule init_failed_store)
  have "get_demo_response ''  '' = Inl IndexError"
    by (rule demo_response_spaces) (simp_all add: is_space_def)
  with a b show ?thesis
    by (simp add: run_after_init demo_response_token [OF split_George])
qed


text \<open>
  C9. The empty query does not fail: the schema accepts it, and \<open>_run\<close> answers with
  the template in which the placeholder is replaced by the default topic \<open>this\<close>.
\<close>

theorem empty_query_uses_default_topic:
  "SeinfeldSearchInput_validate [] None = Inr \<lparr>query = [], num_results = 5\<rparr> \<and>
   run (fst (SeinfeldRAGTool_init e)) [] k =
     (Inr (CHR 0x0A # unlines (demo_lines ''this'')), [])"
  by (simp add: SeinfeldSearchInput_validate_def run_after_init demo_response_empty)

text \<open>
  C10. A query that is not empty and consists of whitespace only makes the
  degraded-mode response raise \<open>IndexError\<close>: its list of tokens is empty, and the
  default topic is used for the empty string alone.
\<close>

theorem whitespace_query_raises:
  assumes "q \<noteq> []" and "list_all is_space q"
  shows "get_demo_response q = Inl IndexError \<and>
    fst (run (fst (SeinfeldRAGTool_init e)) q k) = Inl IndexError"
  using assms by (simp add: run_after_init demo_response_spaces)

theorem whitespace_query_raises_witness:
  "''  '' \<noteq> [] \<and> list_all is_space ''  '' \<and>
   get_demo_response ''  '' = Inl IndexError \<and>
   fst (run (fst (SeinfeldRAGTool_init offline_env)) ''  '' 5) = Inl IndexError"
proof -
  have a: "''  '' \<noteq> []" by simp
  have b: "list_all is_space ''  ''" by (simp add: is_space_def)
  from whitespace_query_raises [OF a b, of offline_env 5] a b show ?thesis by simp
qed

section \<open>The pipeline entry points\<close>

text \<open>
  C5, as amended. When the theme argument is missing or empty (or the interactive
  flag is set), \<open>main\<close> asks for a theme; if the reply is empty once stripped, \<open>main\<close>
  leaves with exit status 1 and nothing else has happened: the crew was not built and
  no task ran. \<open>run_crew\<close> itself does not check its theme: it kicks the crew off with
  the theme it is given and returns what the crew returns.
\<close>

theorem main_rejects_empty_reply:
  assumes "arg_interactive a \<or> arg_theme a = None \<or> arg_theme a = Some []"
    and "str_strip line = []"
  shows "main e kick a line = (SystemExit 1, [ReadInput]) \<and>
    fst (run_crew e kick theme) = kick (fst (SeinfeldRAGTool_init e)) theme \<and>
    last (snd (run_crew e kick theme)) = Kickoff theme"
  using assms by (auto simp: main_def run_crew_def split: prod.splits)

theorem main_rejects_empty_reply_witness:
  "(arg_interactive no_args \<or> arg_theme no_args = None \<or> arg_theme no_args = Some []) \<and>
   str_strip '' '' = [] \<and>
   main offline_env echo_kickoff no_args '' '' = (SystemExit 1, [ReadInput]) \<and>
   fst (run_crew offline_env echo_kickoff []) =
     echo_kickoff (fst (SeinfeldRAGTool_init offline_env)) [] \<and>
   last (snd (run_crew offline_env echo_kickoff [])) = Kickoff []"
proof -
  have a: "arg_interactive no_args \<or> arg_theme no_args = None \<or> arg_theme no_args = Some []"
    by (simp add: no_args_def)
  have b: "str_strip '' '' = []" by (simp add: str_strip_def is_space_def)
  from main_rejects_empty_reply [OF a b, of offline_env echo_kickoff "[]"] a b
  show ?thesis by simp
qed

text \<open>
  C5 as stated fails: \<open>run_crew\<close> with the empty theme is not rejected; the crew is
  kicked off with the empty theme and its script is returned.
\<close>

theorem run_crew_accepts_empty_theme:
  "run_crew offline_env echo_kickoff [] =
     (Inr ''SCRIPT: '', [Mkdir ''output'', ConnectAttempt, Kickoff []])"
  by (simp add: run_crew_def SeinfeldRAGTool_init_def initialize_connections_def offline_env_def
      echo_kickoff_def Let_def SeinfeldRAGTool_attrs_def)

end
